theory Spec2Isabelle
  imports Main
begin

section \<open>Python string and list primitives used by the program\<close>

text \<open>
  Strings are lists of 8-bit characters.  The operations below follow the behaviour of the
  Python built-ins the program calls: \<open>in\<close>, \<open>str.find\<close>, slicing, \<open>str.strip\<close>,
  \<open>str.split(sep)\<close>, \<open>str.splitlines\<close>, \<open>str.join\<close>, \<open>str.replace\<close>,
  \<open>str.startswith\<close>, \<open>"%d" % n\<close> and \<open>int(s)\<close>.  Exceptions are values of type
  \<open>error\<close>.
\<close>

datatype error = IndexError | KeyError | TypeError | ValueError

definition py_startswith :: "string \<Rightarrow> string \<Rightarrow> bool" where
  "py_startswith s p = (take (length p) s = p)"

fun py_in :: "string \<Rightarrow> string \<Rightarrow> bool" where
  "py_in sub [] = (sub = [])"
| "py_in sub (x # xs) = (py_startswith (x # xs) sub \<or> py_in sub xs)"

fun find_at :: "string \<Rightarrow> string \<Rightarrow> nat option" where
  "find_at sub [] = (if sub = [] then Some 0 else None)"
| "find_at sub (x # xs) =
     (if py_startswith (x # xs) sub then Some 0 else map_option Suc (find_at sub xs))"

definition py_find :: "string \<Rightarrow> string \<Rightarrow> int" where
  "py_find s sub = (case find_at sub s of None \<Rightarrow> - 1 | Some i \<Rightarrow> int i)"

definition py_slice :: "'a list \<Rightarrow> int \<Rightarrow> int \<Rightarrow> 'a list" where
  "py_slice s a b =
     (let n = int (length s);
          lo = (if a < 0 then max 0 (n + a) else min a n);
          hi = (if b < 0 then max 0 (n + b) else min b n)
      in take (nat (hi - lo)) (drop (nat lo) s))"

definition py_isspace :: "char \<Rightarrow> bool" where
  "py_isspace c = ((of_char c :: nat) \<in> set [9, 10, 11, 12, 13, 28, 29, 30, 31, 32, 133, 160])"

definition py_strip :: "string \<Rightarrow> string" where
  "py_strip s = rev (dropWhile py_isspace (rev (dropWhile py_isspace s)))"

text \<open>
  \<open>s.split(sep)\<close> for a non-empty separator: every occurrence of \<open>sep\<close> found scanning
  from the left ends a piece, so adjacent separators give empty pieces and the result is
  never empty.  \<open>k\<close> counts the characters of a matched separator still to be skipped.
\<close>

fun split_go :: "string \<Rightarrow> nat \<Rightarrow> string \<Rightarrow> string \<Rightarrow> string list" where
  "split_go sep k acc [] = [rev acc]"
| "split_go sep (Suc k) acc (x # xs) = split_go sep k acc xs"
| "split_go sep 0 acc (x # xs) =
     (if py_startswith (x # xs) sep
      then rev acc # split_go sep (length sep - 1) [] xs
      else split_go sep 0 (x # acc) xs)"

definition py_split :: "string \<Rightarrow> string \<Rightarrow> string list" where
  "py_split s sep = split_go sep 0 [] s"

fun py_join :: "string \<Rightarrow> string list \<Rightarrow> string" where
  "py_join sep [] = []"
| "py_join sep [x] = x"
| "py_join sep (x # y # ys) = x @ sep @ py_join sep (y # ys)"

definition py_replace :: "string \<Rightarrow> char \<Rightarrow> string \<Rightarrow> string" where
  "py_replace s a b = concat (map (\<lambda>c. if c = a then b else [c]) s)"

definition digit_char :: "nat \<Rightarrow> char" where
  "digit_char d = char_of (48 + d)"

fun str_nat :: "nat \<Rightarrow> string" where
  "str_nat n = (if n < 10 then [digit_char n] else str_nat (n div 10) @ [digit_char (n mod 10)])"

declare str_nat.simps [simp del]

section \<open>The partition table parser (\<open>mmlsParser\<close>)\<close>

text \<open>
  Each partition is a dictionary with a fixed set of keys; it is a record here.
  \<open>Path\<close> and \<open>FSType\<close> hold a Python string or \<open>None\<close>: the parser stores the empty
  string in both, the carve job later stores a path and whatever \<open>fsstatParser\<close>
  returns, and \<open>recoverFiles\<close> compares \<open>Path\<close> with \<open>None\<close>.
\<close>

record partition =
  Slot :: string
  CarvedFiles :: string
  FSType :: "string option"
  Path :: "string option"
  Carved :: string
  Start :: string
  End :: string
  Length :: string
  Description :: string
  FileSystem :: string
  Name :: string

text \<open>\<open>bs\<close> starts as the integer \<open>-1\<close> and becomes a string once a marker line is seen.\<close>

datatype blocksize = BsInt int | BsStr string

text \<open>Lines 95--96: the marker test and the slice, run on every line of the input.\<close>

definition units_of :: "string \<Rightarrow> string" where
  "units_of line =
     py_slice line (py_find line ''Units are in '' + int (length ''Units are in ''))
                   (py_find line ''-'')"

definition units_step :: "string \<Rightarrow> blocksize \<Rightarrow> blocksize" where
  "units_step line bs = (if py_in ''Units are in '' line then BsStr (units_of line) else bs)"

text \<open>Line 98: \<open>line.strip().split(" ")\<close>.\<close>

definition row_tokens :: "string \<Rightarrow> string list" where
  "row_tokens line = py_split (py_strip line) '' ''"

text \<open>
  Lines 104--139, on the token list of one row after the header.  Every index read
  raises \<open>IndexError\<close> when the list is too short; the reads of one branch are guarded
  together by the largest index, since nothing is observable between them.  The slices
  \<open>line[17:]\<close> and \<open>line[14:]\<close> never raise.  The result is the new dictionary together
  with the updated \<open>partitionCounter\<close>.
\<close>

definition parse_row :: "string list \<Rightarrow> nat \<Rightarrow> error + (partition \<times> nat)" where
  "parse_row line partitionCounter =
     (if length line \<le> 2 then Inl IndexError
      else if line ! 2 = ''Meta'' then
        (if length line \<le> 14 then Inl IndexError
         else Inr (\<lparr>Slot = line ! 2, CarvedFiles = ''No'', FSType = Some [], Path = Some [],
                     Carved = ''No'', Start = line ! 8, End = line ! 11, Length = line ! 14,
                     Description = py_join '' '' (drop 17 line), FileSystem = ''No'',
                     Name = py_replace (py_join '' '' (drop 17 line)) (CHR '' '') ''_''\<rparr>,
                   partitionCounter))
      else
        (if length line \<le> 11 then Inl IndexError
         else if py_in '':'' (line ! 2) then
           (let desc = py_join '' '' (drop 14 line) @ ''_fs'' @ str_nat partitionCounter
            in Inr (\<lparr>Slot = line ! 2, CarvedFiles = ''No'', FSType = Some [], Path = Some [],
                      Carved = ''No'', Start = line ! 5, End = line ! 8, Length = line ! 11,
                      Description = desc, FileSystem = ''Yes'',
                      Name = py_replace desc (CHR '' '') ''_''\<rparr>,
                    partitionCounter + 1))
         else
           (let desc = py_join '' '' (drop 14 line)
            in Inr (\<lparr>Slot = line ! 2, CarvedFiles = ''No'', FSType = Some [], Path = Some [],
                      Carved = ''No'', Start = line ! 5, End = line ! 8, Length = line ! 11,
                      Description = desc, FileSystem = ''No'',
                      Name = py_replace desc (CHR '' '') ''_''\<rparr>,
                    partitionCounter))))"

text \<open>
  The loop of lines 93--139 over the state \<open>(info, bs, slotFound, partitionCounter)\<close>.
  An exception leaves the loop and the function.
\<close>

type_synonym mmls_state = "partition list \<times> blocksize \<times> bool \<times> nat"

fun mmls_loop :: "string list \<Rightarrow> mmls_state \<Rightarrow> error + mmls_state" where
  "mmls_loop [] st = Inr st"
| "mmls_loop (l # f) (info, bs, slotFound, partitionCounter) =
     (let bs' = units_step l bs; line = row_tokens l
      in if \<not> slotFound
         then mmls_loop f (info, bs', ''Slot'' \<in> set line, partitionCounter)
         else (case parse_row line partitionCounter of
                 Inl e \<Rightarrow> Inl e
               | Inr (temp, partitionCounter') \<Rightarrow>
                   mmls_loop f (info @ [temp], bs', True, partitionCounter')))"

definition mmlsParser :: "string list \<Rightarrow> error + (partition list \<times> blocksize)" where
  "mmlsParser f =
     (case mmls_loop f ([], BsInt (- 1), False, 0) of
        Inl e \<Rightarrow> Inl e
      | Inr (info, bs, slotFound, partitionCounter) \<Rightarrow> Inr (info, bs))"

section \<open>The directory tree builder (\<open>getFilesTree\<close>)\<close>

text \<open>
  \<open>dir\<close> is a Python dictionary keyed by strings whose values are again dictionaries,
  except under the key \<open>'Files'\<close>, which holds a list of paths.  Dictionaries keep
  insertion order, so a dictionary is an association list without repeated keys:
  storing under an existing key replaces the value in place, storing under a new key
  appends.  Every dictionary created in the first loop is referenced from one place
  only (the top level, or after being attached, its parent), so values stand for the
  objects themselves.
\<close>

datatype pyval = Files "string list" | Dict "(string \<times> pyval) list"

type_synonym pydict = "(string \<times> pyval) list"

fun dict_set :: "string \<Rightarrow> pyval \<Rightarrow> pydict \<Rightarrow> pydict" where
  "dict_set k v [] = [(k, v)]"
| "dict_set k v ((k', v') # d) =
     (if k' = k then (k, v) # d else (k', v') # dict_set k v d)"

definition dict_get :: "pydict \<Rightarrow> string \<Rightarrow> error + pyval" where
  "dict_get d k = (case map_of d k of None \<Rightarrow> Inl KeyError | Some v \<Rightarrow> Inr v)"

definition dict_del :: "string \<Rightarrow> pydict \<Rightarrow> error + pydict" where
  "dict_del k d =
     (if k \<in> fst ` set d then Inr (filter (\<lambda>kv. fst kv \<noteq> k) d) else Inl KeyError)"

definition sep :: string where
  "sep = ''/''"

text \<open>
  One entry of \<open>os.walk(path)\<close> is \<open>(dirpath, dirnames, filenames)\<close>.  The walk itself is
  done by the operating system; the function below takes its result.  Lines 177--185.
\<close>

type_synonym walk = "(string \<times> string list \<times> string list) list"

fun collect :: "walk \<Rightarrow> pydict \<times> string list \<Rightarrow> pydict \<times> string list" where
  "collect [] st = st"
| "collect ((dirpath, dirnames, filenames) # w) (dir, directories) =
     collect w (dict_set dirpath (Dict [(''Files'', Files (map (\<lambda>f. dirpath @ sep @ f) filenames))]) dir,
                directories @ [dirpath])"

text \<open>
  Lines 198--212, for one pair \<open>(d, sub)\<close>: the right-hand side \<open>dir[sub]\<close> is read
  first, then \<open>dir[d]\<close>, then the item is stored; both reads raise \<open>KeyError\<close> on a
  missing key.
\<close>

definition attach :: "string \<Rightarrow> string \<Rightarrow> pydict \<times> string list \<Rightarrow> error + (pydict \<times> string list)" where
  "attach d sub st =
     (case st of (dir, done) \<Rightarrow>
        if sub \<notin> set done \<and> py_startswith sub d \<and> sub \<noteq> d then
          (case dict_get dir sub of
             Inl e \<Rightarrow> Inl e
           | Inr child \<Rightarrow>
               (case dict_get dir d of
                  Inl e \<Rightarrow> Inl e
                | Inr (Files fs) \<Rightarrow> Inl TypeError
                | Inr (Dict entries) \<Rightarrow>
                    (case dict_del sub (dict_set d (Dict (dict_set sub child entries)) dir) of
                       Inl e \<Rightarrow> Inl e
                     | Inr dir' \<Rightarrow> Inr (dir', done @ [sub]))))
        else Inr (dir, done))"

text \<open>The inner loop (line 195) and the outer loop (line 194).\<close>

fun fold_subs :: "string \<Rightarrow> string list \<Rightarrow> pydict \<times> string list \<Rightarrow> error + (pydict \<times> string list)" where
  "fold_subs d [] st = Inr st"
| "fold_subs d (sub # subs) st =
     (case attach d sub st of Inl e \<Rightarrow> Inl e | Inr st' \<Rightarrow> fold_subs d subs st')"

fun fold_dirs :: "string list \<Rightarrow> string list \<Rightarrow> pydict \<times> string list \<Rightarrow> error + (pydict \<times> string list)" where
  "fold_dirs [] directories st = Inr st"
| "fold_dirs (d # ds) directories st =
     (case fold_subs d directories st of
        Inl e \<Rightarrow> Inl e
      | Inr st' \<Rightarrow> fold_dirs ds directories st')"

definition getFilesTree :: "walk \<Rightarrow> error + pydict" where
  "getFilesTree w =
     (case collect w ([], []) of (dir, directories) \<Rightarrow>
        (case fold_dirs (rev directories) (rev directories) (dir, []) of
           Inl e \<Rightarrow> Inl e
         | Inr (dir', done) \<Rightarrow> Inr dir'))"

text \<open>
  Two nested structures are isomorphic when they agree as dictionaries: the same keys
  with isomorphic values, whatever the order of the entries, and the same set of
  files in each file list.
\<close>

fun iso :: "pyval \<Rightarrow> pyval \<Rightarrow> bool" where
  "iso (Files a) (Files b) = (set a = set b)"
| "iso (Dict a) (Dict b) =
     ((\<forall>p \<in> set a. \<exists>q \<in> set b. fst p = fst q \<and> iso (snd p) (snd q)) \<and>
      (\<forall>q \<in> set b. \<exists>p \<in> set a. fst p = fst q \<and> iso (snd p) (snd q)))"
| "iso (Files a) (Dict b) = False"
| "iso (Dict a) (Files b) = False"

section \<open>The filesystem probe parser (\<open>fsstatParser\<close>)\<close>

text \<open>
  \<open>str.splitlines\<close> ends a line at \<open>\n\<close>, \<open>\r\<close>, \<open>\r\n\<close>, \<open>\v\<close>, \<open>\f\<close>, the
  separators \<open>0x1c\<close>--\<open>0x1e\<close> and \<open>0x85\<close>, and yields no empty last line.
\<close>

definition is_linebreak :: "char \<Rightarrow> bool" where
  "is_linebreak c = ((of_char c :: nat) \<in> set [10, 11, 12, 13, 28, 29, 30, 133])"

fun splitlines_go :: "string \<Rightarrow> string \<Rightarrow> string list" where
  "splitlines_go acc [] = (if acc = [] then [] else [rev acc])"
| "splitlines_go acc [c] = (if is_linebreak c then [rev acc] else [rev (c # acc)])"
| "splitlines_go acc (c # c' # cs) =
     (if c = CHR 0x0D \<and> c' = CHR 0x0A then rev acc # splitlines_go [] cs
      else if is_linebreak c then rev acc # splitlines_go [] (c' # cs)
      else splitlines_go (c # acc) (c' # cs))"

definition py_splitlines :: "string \<Rightarrow> string list" where
  "py_splitlines s = splitlines_go [] s"

text \<open>Lines 153--158.  Falling off the loop returns \<open>None\<close>.\<close>

fun fsstat_lines :: "string list \<Rightarrow> string option" where
  "fsstat_lines [] = None"
| "fsstat_lines (line # ls) =
     (let indx = py_find line ''File System Type: ''
      in if indx > - 1
         then Some (py_strip (drop (nat (indx + int (length ''File System Type: ''))) line))
         else fsstat_lines ls)"

definition fsstatParser :: "string \<Rightarrow> string option" where
  "fsstatParser f = fsstat_lines (py_splitlines f)"

section \<open>The session state and the carve job (\<open>CarveThread.run\<close>)\<close>

text \<open>
  \<open>openDiskImage\<close> (lines 549 and 591--598) stores the parser's result in the
  application and gives every dictionary the further keys \<open>Recovered\<close> and \<open>MD5Sum\<close>.
\<close>

record spartition = partition +
  Recovered :: string
  MD5Sum :: string

definition open_entry :: "partition \<Rightarrow> spartition" where
  "open_entry p =
     \<lparr>Slot = Slot p, CarvedFiles = CarvedFiles p, FSType = FSType p, Path = Path p,
      Carved = ''No'', Start = Start p, End = End p, Length = Length p,
      Description = Description p, FileSystem = FileSystem p, Name = Name p,
      Recovered = ''No'', MD5Sum = []\<rparr>"

record app =
  listOfPartitions :: "spartition list"
  imagePath :: string
  bs :: blocksize
  ddPath :: string
  fsstatPath :: string
  tskPath :: string
  md5Path :: string
  scalpelPath :: string

text \<open>
  An external program is a function from the command line to the decoded pair
  \<open>(stdout, stderr)\<close> that \<open>communicate\<close> returns.  What an operation does besides
  changing the partitions is recorded: the messages put on the queue, the messages
  given to \<open>insertCommand\<close> directly, the command lines launched, and the exception
  that ended it, if any.  A message is its text (a string, or the argument list of a
  process) and its delimiter.
\<close>

type_synonym tools = "string list \<Rightarrow> string \<times> string"

datatype msgtext = Str string | Args "string list"

type_synonym message = "msgtext \<times> string"

record trace =
  parts :: "spartition list"
  queue :: "message list"
  shown :: "message list"
  launched :: "string list list"
  raised :: "error option"

record job = trace +
  success :: bool

definition TAB :: string where
  "TAB = [CHR 0x09]"

definition put :: "msgtext \<Rightarrow> string \<Rightarrow> ('a trace_scheme) \<Rightarrow> 'a trace_scheme" where
  "put txt deli t = t\<lparr>queue := queue t @ [(txt, deli)]\<rparr>"

definition insertCommand :: "msgtext \<Rightarrow> string \<Rightarrow> ('a trace_scheme) \<Rightarrow> 'a trace_scheme" where
  "insertCommand txt deli t = t\<lparr>shown := shown t @ [(txt, deli)]\<rparr>"

definition launch :: "string list \<Rightarrow> ('a trace_scheme) \<Rightarrow> 'a trace_scheme" where
  "launch cmd t = t\<lparr>launched := launched t @ [cmd]\<rparr>"

definition raise :: "error \<Rightarrow> ('a trace_scheme) \<Rightarrow> 'a trace_scheme" where
  "raise e t = t\<lparr>raised := Some e\<rparr>"

text \<open>
  The two assignments \<open>listOfPartitions[pos]["Carved"] = "Yes"\<close> and
  \<open>listOfPartitions[pos]["Path"] = outPath\<close> that every success branch makes.
\<close>

definition mark_carved :: "nat \<Rightarrow> string \<Rightarrow> ('a trace_scheme) \<Rightarrow> 'a trace_scheme" where
  "mark_carved pos outPath t =
     (if pos < length (parts t)
      then t\<lparr>parts := (parts t)[pos := (parts t ! pos)\<lparr>Carved := ''Yes'', Path := Some outPath\<rparr>]\<rparr>
      else raise IndexError t)"

text \<open>Lines 331--370, branch by branch; the innermost test of line 345 reads \<open>stdout\<close>.\<close>

definition classify :: "string \<Rightarrow> nat \<Rightarrow> string \<Rightarrow> string \<Rightarrow> string \<Rightarrow> job \<Rightarrow> job" where
  "classify name pos outPath stdout stderr j =
     (if stdout \<noteq> [] then
        (if py_in ''records'' stdout then
           mark_carved pos outPath
             ((put (Str (''Success: '' @ name)) TAB
                (insertCommand (Str ''Success!'') TAB j))\<lparr>success := True\<rparr>)
         else if stderr \<noteq> [] then
           (if py_in ''records'' stdout then
              mark_carved pos outPath
                ((put (Str (''Success: '' @ name)) TAB j)\<lparr>success := True\<rparr>)
            else j)
         else put (Str (''Failure: '' @ name)) TAB j)
      else if stderr \<noteq> [] then
        (if py_in ''records'' stderr then
           mark_carved pos outPath
             ((put (Str (''Success: '' @ name)) TAB j)\<lparr>success := True\<rparr>)
         else put (Str (''Failure: '' @ name)) TAB j)
      else put (Str (''Failure: '' @ name)) TAB j)"

text \<open>
  Lines 373--387.  \<open>"FSType: " + type\<close> raises \<open>TypeError\<close> when the parser returned
  \<open>None\<close>, after the assignment to \<open>FSType\<close>.
\<close>

definition probe :: "tools \<Rightarrow> app \<Rightarrow> nat \<Rightarrow> string \<Rightarrow> job \<Rightarrow> job" where
  "probe tool a pos outPath j =
     (let cmd = [fsstatPath a, outPath];
          j1 = put (Args cmd) ''$'' (launch cmd j);
          stdout = fst (tool cmd);
          stderr = snd (tool cmd)
      in if stdout \<noteq> [] then
           (let type = fsstatParser stdout
            in if pos < length (parts j1) then
                 (let j2 = j1\<lparr>parts := (parts j1)[pos := (parts j1 ! pos)\<lparr>FSType := type\<rparr>]\<rparr>
                  in case type of
                       None \<Rightarrow> raise TypeError j2
                     | Some ty \<Rightarrow> put (Str (''FSType: '' @ ty)) TAB j2)
               else raise IndexError j1)
         else put (Str (''FSType: '' @ stderr)) TAB j1)"

text \<open>
  Lines 312--389.  \<open>partitionsDict\<close> is the dictionary the thread was created with;
  \<open>carvePartitions\<close> passes \<open>listOfPartitions[i]\<close> itself, and the job changes none of
  the keys it reads from it.  \<open>"bs=" + self.app.bs\<close> raises \<open>TypeError\<close> while the block
  size is still the integer \<open>-1\<close>.
\<close>

definition run :: "tools \<Rightarrow> app \<Rightarrow> spartition \<Rightarrow> nat \<Rightarrow> string \<Rightarrow> job" where
  "run tool a partitionsDict pos path =
     (let name = Name partitionsDict;
          outPath = path @ ''/'' @ name;
          j0 = put (Str (''Attempting to carve partition '' @ name @ ''...'')) TAB
                 \<lparr>parts = listOfPartitions a, queue = [], shown = [], launched = [],
                  raised = None, success = False\<rparr>
      in case bs a of
           BsInt n \<Rightarrow> raise TypeError j0
         | BsStr b \<Rightarrow>
             (let cmd = [ddPath a, ''if='' @ imagePath a, ''of='' @ outPath, ''bs='' @ b,
                         ''skip='' @ Start partitionsDict, ''count='' @ Length partitionsDict];
                  j1 = put (Args cmd) ''$'' (launch cmd j0);
                  j2 = classify name pos outPath (fst (tool cmd)) (snd (tool cmd)) j1
              in if raised j2 \<noteq> None then j2
                 else if FileSystem partitionsDict = ''Yes'' then probe tool a pos outPath j2
                 else j2))"

section \<open>The operations of a session\<close>

text \<open>
  \<open>int(s)\<close> on a string of 8-bit characters: surrounding whitespace is dropped, one
  sign is allowed, and the digits may be grouped by single underscores.  The
  whitespace \<open>int\<close> drops is \<open>\t\<close>, \<open>\n\<close>, \<open>\v\<close>, \<open>\f\<close>, \<open>\r\<close>, the space, \<open>0x85\<close> and
  \<open>0xa0\<close>; unlike \<open>str.strip\<close> it does not drop the separators \<open>0x1c\<close>--\<open>0x1f\<close>.
\<close>

definition int_space :: "char \<Rightarrow> bool" where
  "int_space c = ((of_char c :: nat) \<in> set [9, 10, 11, 12, 13, 32, 133, 160])"

definition is_digit :: "char \<Rightarrow> bool" where
  "is_digit c = (48 \<le> (of_char c :: nat) \<and> (of_char c :: nat) \<le> 57)"

definition digit_val :: "char \<Rightarrow> nat" where
  "digit_val c = of_char c - 48"

fun parse_digits :: "string \<Rightarrow> nat \<Rightarrow> nat option" where
  "parse_digits [] acc = Some acc"
| "parse_digits [c] acc = (if is_digit c then Some (10 * acc + digit_val c) else None)"
| "parse_digits (c # d # cs) acc =
     (if is_digit c then parse_digits (d # cs) (10 * acc + digit_val c)
      else if c = CHR ''_'' \<and> is_digit d then parse_digits cs (10 * acc + digit_val d)
      else None)"

definition parse_nat :: "string \<Rightarrow> nat option" where
  "parse_nat s =
     (case s of [] \<Rightarrow> None
      | c # cs \<Rightarrow> if is_digit c then parse_digits cs (digit_val c) else None)"

definition py_int :: "string \<Rightarrow> error + int" where
  "py_int s =
     (let t = rev (dropWhile int_space (rev (dropWhile int_space s)));
          r = (case t of
                 [] \<Rightarrow> None
               | c # cs \<Rightarrow>
                   if c = CHR ''-'' then map_option (\<lambda>n. - int n) (parse_nat cs)
                   else if c = CHR ''+'' then map_option int (parse_nat cs)
                   else map_option int (parse_nat t))
      in case r of None \<Rightarrow> Inl ValueError | Some n \<Rightarrow> Inr n)"

text \<open>
  \<open>getMd5\<close> (lines 260--275): the first space-separated piece of the tool's output,
  or the empty string after an error box.
\<close>

definition getMd5 :: "tools \<Rightarrow> string \<Rightarrow> string \<Rightarrow> string" where
  "getMd5 tool filePath md5 =
     (let stdout = fst (tool [md5, filePath])
      in if stdout \<noteq> [] then hd (py_split stdout '' '') else [])"

text \<open>
  \<open>carvePartitions\<close> (lines 843--928).  The selection \<open>self.partitionsToUse\<close> and the
  folder the user chose are parameters.  The jobs are threads; here they run one after
  the other in the order they are started, each on the partitions the previous one
  left.  An exception inside a job ends that job only.  Reading
  \<open>listOfPartitions[i]\<close> for an index out of range ends the operation, with the jobs
  started so far completed.  Afterwards every selected partition whose \<open>Carved\<close> is
  \<open>"Yes"\<close> gets its \<open>MD5Sum\<close>.
\<close>

fun start_jobs :: "tools \<Rightarrow> string \<Rightarrow> nat list \<Rightarrow> app \<Rightarrow> app \<times> error option" where
  "start_jobs tool out [] a = (a, None)"
| "start_jobs tool out (i # sel) a =
     (if i < length (listOfPartitions a)
      then start_jobs tool out sel
             (a\<lparr>listOfPartitions := parts (run tool a (listOfPartitions a ! i) i out)\<rparr>)
      else (a, Some IndexError))"

fun hash_carved :: "tools \<Rightarrow> nat list \<Rightarrow> app \<Rightarrow> app" where
  "hash_carved tool [] a = a"
| "hash_carved tool (i # sel) a =
     (if i < length (listOfPartitions a) then
        (let partition = listOfPartitions a ! i
         in if Carved partition = ''Yes'' then
              (case Path partition of
                 None \<Rightarrow> a
               | Some pth \<Rightarrow>
                   hash_carved tool sel
                     (a\<lparr>listOfPartitions := (listOfPartitions a)
                          [i := partition\<lparr>MD5Sum := getMd5 tool pth (md5Path a)\<rparr>]\<rparr>))
            else hash_carved tool sel a)
      else a)"

definition carvePartitions :: "tools \<Rightarrow> string \<Rightarrow> nat list \<Rightarrow> app \<Rightarrow> app" where
  "carvePartitions tool outputFolderPath partitionsToUse a =
     (if outputFolderPath = [] then a
      else (case start_jobs tool outputFolderPath partitionsToUse a of
              (a', Some e) \<Rightarrow> a'
            | (a', None) \<Rightarrow> hash_carved tool partitionsToUse a'))"

text \<open>
  \<open>recoverFiles\<close>, the body of the loop for one selected index (lines 749--827).
  \<open>walk_of\<close> gives the walk of a folder as the operating system would.  The widgets
  built for a recovered tree and the hashing of its files (lines 778--816, apart from
  the assignment of line 807) change no partition and are left out, so \<open>launched\<close>
  does not list the commands of the hash tool that filling the widgets starts.
\<close>

definition recover_one ::
  "tools \<Rightarrow> (string \<Rightarrow> walk) \<Rightarrow> app \<Rightarrow> string \<Rightarrow> nat \<Rightarrow> trace \<Rightarrow> trace" where
  "recover_one tool walk_of a outFolder i t =
     (if length (parts t) \<le> i then raise IndexError t
      else
        (let p = parts t ! i;
             name = py_replace (py_replace
                      (py_slice (Description p) 0 (py_find (Description p) ''(''))
                      (CHR '' '') []) (CHR ''/'') ''_'' @ ''_'' @ str_nat i;
             t1 = insertCommand
                    (Str (''Attempting to recover files from '' @ name @ '' partition...'')) TAB t
         in case Path p of
              None \<Rightarrow>
                insertCommand
                  (Str ''Partition not carved. Carve the partition first and try again.'') TAB t1
            | Some partitionPath \<Rightarrow>
                (let out = outFolder @ ''/out_'' @ name;
                     cmds = [tskPath a, partitionPath, out];
                     t2 = insertCommand (Args cmds) ''$'' (launch cmds t1);
                     stdout = fst (tool cmds)
                 in if stdout \<noteq> [] then
                      (case py_split stdout '':'' of
                         x # count # rest \<Rightarrow>
                           (case py_int count of
                              Inl e \<Rightarrow> raise e t2
                            | Inr filesRecovered \<Rightarrow>
                                if filesRecovered \<noteq> 0 then
                                  (case getFilesTree (walk_of out) of
                                     Inl e \<Rightarrow> raise e t2
                                   | Inr dir \<Rightarrow>
                                       (insertCommand
                                          (Str ''Recovering files from selected partitions...'') TAB t2)
                                       \<lparr>parts := (parts t2)[i := p\<lparr>Recovered := ''Yes''\<rparr>]\<rparr>)
                                else t2)
                       | _ \<Rightarrow> raise IndexError t2)
                    else t2\<lparr>parts := (parts t2)[i := p\<lparr>Recovered := ''No''\<rparr>]\<rparr>)))"

text \<open>The loop of line 748; an exception ends it.\<close>

fun recover_loop ::
  "tools \<Rightarrow> (string \<Rightarrow> walk) \<Rightarrow> app \<Rightarrow> string \<Rightarrow> nat list \<Rightarrow> trace \<Rightarrow> trace" where
  "recover_loop tool walk_of a outFolder [] t = t"
| "recover_loop tool walk_of a outFolder (i # sel) t =
     (let t' = recover_one tool walk_of a outFolder i t
      in if raised t' \<noteq> None then t' else recover_loop tool walk_of a outFolder sel t')"

definition recoverFiles ::
  "tools \<Rightarrow> (string \<Rightarrow> walk) \<Rightarrow> string \<Rightarrow> nat list \<Rightarrow> app \<Rightarrow> trace" where
  "recoverFiles tool walk_of outFolder partitionsToUse a =
     (let t = \<lparr>parts = listOfPartitions a, queue = [], shown = [], launched = [], raised = None\<rparr>
      in if outFolder = [] then t
         else recover_loop tool walk_of a outFolder partitionsToUse t)"

text \<open>
  \<open>carveFiles\<close> (lines 1190--1283) for the index \<open>chosen\<close> in the drop-down list.
  Writing the configuration file and building the widgets are left out.
\<close>

definition carveFiles :: "tools \<Rightarrow> string \<Rightarrow> nat \<Rightarrow> app \<Rightarrow> trace" where
  "carveFiles tool outFolder chosen a =
     (let t = \<lparr>parts = listOfPartitions a, queue = [], shown = [], launched = [], raised = None\<rparr>
      in if outFolder = [] then t
         else if length (listOfPartitions a) \<le> chosen then raise IndexError t
         else
           (let p = listOfPartitions a ! chosen
            in case Path p of
                 None \<Rightarrow> raise TypeError t
               | Some partitionPath \<Rightarrow>
                   (let outputFileLocation = outFolder @ sep @ ''carvedFiles_'' @ Description p;
                        cmds = [scalpelPath a, ''-c'', ''./scal.config'', partitionPath, ''-o'',
                                outputFileLocation];
                        t1 = insertCommand (Args cmds) ''$'' (launch cmds t);
                        stdout = fst (tool cmds);
                        stderr = snd (tool cmds)
                    in if stdout \<noteq> [] then
                         (if stderr \<noteq> [] \<and> py_in ''ERROR'' stderr then t1
                          else
                            (case py_split stdout ''files carved = '' of
                               x # y # rest \<Rightarrow>
                                 (case py_int (hd (py_split y '','')) of
                                    Inl e \<Rightarrow> raise e t1
                                  | Inr filesCarved \<Rightarrow>
                                      if filesCarved \<noteq> 0
                                      then t1\<lparr>parts := (parts t1)
                                                [chosen := p\<lparr>CarvedFiles := ''Yes''\<rparr>]\<rparr>
                                      else t1)
                             | _ \<Rightarrow> raise IndexError t1))
                       else t1)))"

text \<open>
  A session is a sequence of these operations on the application; each carries the
  selection, the folder the user chose and the behaviour of the external programs at
  that time.  An exception ends the operation and leaves what it had already stored.
\<close>

datatype operation =
    OpCarve tools string "nat list"
  | OpRecover tools "string \<Rightarrow> walk" string "nat list"
  | OpCarveFiles tools string nat

fun apply_op :: "operation \<Rightarrow> app \<Rightarrow> app" where
  "apply_op (OpCarve tool out sel) a = carvePartitions tool out sel a"
| "apply_op (OpRecover tool walk_of out sel) a =
     a\<lparr>listOfPartitions := parts (recoverFiles tool walk_of out sel a)\<rparr>"
| "apply_op (OpCarveFiles tool out chosen) a =
     a\<lparr>listOfPartitions := parts (carveFiles tool out chosen a)\<rparr>"

fun session :: "operation list \<Rightarrow> app \<Rightarrow> app" where
  "session [] a = a"
| "session (x # xs) a = session xs (apply_op x a)"

text \<open>
  \<open>openDiskImage\<close> (lines 533--598) on the file the user chose and the decoded
  \<open>stdout\<close> of the partition lister.  Without a file, or when the lister printed
  nothing, the application stays as it was; an exception of the parser leaves it with
  the new \<open>imagePath\<close> only.
\<close>

definition openDiskImage :: "string \<Rightarrow> string \<Rightarrow> app \<Rightarrow> app" where
  "openDiskImage diskImageLocation stdout a =
     (if diskImageLocation = [] then a
      else if stdout = [] then a
      else (case mmlsParser (py_splitlines stdout) of
              Inl e \<Rightarrow> a\<lparr>imagePath := diskImageLocation\<rparr>
            | Inr (info, b) \<Rightarrow>
                a\<lparr>imagePath := diskImageLocation, listOfPartitions := map open_entry info,
                  bs := b\<rparr>))"

section \<open>Reference readings and sample inputs\<close>

text \<open>
  Splitting on whitespace in the usual sense (Python's \<open>str.split()\<close> without an
  argument): runs of whitespace separate the tokens and no token is empty.  The
  program does not call it; it is the reading against which \<open>row_tokens\<close> is compared.
\<close>

fun ws_go :: "string \<Rightarrow> string \<Rightarrow> string list" where
  "ws_go acc [] = (if acc = [] then [] else [rev acc])"
| "ws_go acc (c # cs) =
     (if py_isspace c then (if acc = [] then ws_go [] cs else rev acc # ws_go [] cs)
      else ws_go (c # acc) cs)"

definition ws_tokens :: "string \<Rightarrow> string list" where
  "ws_tokens s = ws_go [] s"

text \<open>The lines of the input after the header row, and the last line with the marker.\<close>

fun rows_after_header :: "string list \<Rightarrow> string list" where
  "rows_after_header [] = []"
| "rows_after_header (l # f) =
     (if ''Slot'' \<in> set (row_tokens l) then f else rows_after_header f)"

definition last_units_line :: "string list \<Rightarrow> string option" where
  "last_units_line f =
     (case filter (py_in ''Units are in '') f of [] \<Rightarrow> None | l # ls \<Rightarrow> Some (last (l # ls)))"

text \<open>
  A row bears a filesystem when it is not a \<open>Meta\<close> row and its token 2 contains a colon;
  \<open>fs_before i rows\<close> counts such rows among the first \<open>i\<close>.
\<close>

definition is_fs_row :: "string list \<Rightarrow> bool" where
  "is_fs_row line = (line ! 2 \<noteq> ''Meta'' \<and> py_in '':'' (line ! 2))"

definition fs_before :: "nat \<Rightarrow> string list \<Rightarrow> nat" where
  "fs_before i rows = length (filter is_fs_row (map row_tokens (take i rows)))"

text \<open>The output of the partition lister on a small disk image, and rows used below.\<close>

definition header_row :: string where
  "header_row = ''      Slot      Start        End          Length       Description''"

definition meta_row :: string where
  "meta_row = ''000:  Meta      0000000000   0000000000   0000000001   Primary Table (#0)''"

definition fat_row :: string where
  "fat_row = ''002:  000:000   0000000063   0000096389   0000096327   DOS FAT16 (0x04)''"

definition odd_row :: string where
  "odd_row = ''003:  000:001   0000096390   0000192779   0000096390   Units are in 4096-byte''"

definition sample_mmls :: "string list" where
  "sample_mmls =
     [''DOS Partition Table'', ''Offset Sector: 0'', ''Units are in 512-byte sectors'', [],
      header_row, meta_row,
      ''001:  -------   0000000000   0000000062   0000000063   Unallocated'',
      fat_row]"

text \<open>What the parser returns on the sample.\<close>

definition sample_info :: "partition list" where
  "sample_info =
     [\<lparr>Slot = ''Meta'', CarvedFiles = ''No'', FSType = Some [], Path = Some [], Carved = ''No'',
       Start = ''0000000000'', End = ''0000000000'', Length = ''0000000001'',
       Description = ''Primary Table (#0)'', FileSystem = ''No'', Name = ''Primary_Table_(#0)''\<rparr>,
      \<lparr>Slot = ''-------'', CarvedFiles = ''No'', FSType = Some [], Path = Some [], Carved = ''No'',
       Start = ''0000000000'', End = ''0000000062'', Length = ''0000000063'',
       Description = ''Unallocated'', FileSystem = ''No'', Name = ''Unallocated''\<rparr>,
      \<lparr>Slot = ''000:000'', CarvedFiles = ''No'', FSType = Some [], Path = Some [], Carved = ''No'',
       Start = ''0000000063'', End = ''0000096389'', Length = ''0000096327'',
       Description = ''DOS FAT16 (0x04)_fs0'', FileSystem = ''Yes'',
       Name = ''DOS_FAT16_(0x04)_fs0''\<rparr>]"

text \<open>The application as \<open>App.__init__\<close> leaves it, and after opening the sample image.\<close>

definition new_app :: app where
  "new_app =
     \<lparr>listOfPartitions = [], imagePath = [], bs = BsInt (- 1), ddPath = ''/bin/dd'',
      fsstatPath = ''/usr/bin/fsstat'', tskPath = ''/usr/bin/tsk_recover'',
      md5Path = ''/usr/bin/md5sum'', scalpelPath = ''/usr/bin/scalpel''\<rparr>"

text \<open>The text a program prints: each line followed by a newline.\<close>

definition printed :: "string list \<Rightarrow> string" where
  "printed ls = concat (map (\<lambda>l. l @ [CHR 0x0A]) ls)"

definition sample_app :: app where
  "sample_app = openDiskImage ''/img/disk.dd'' (printed sample_mmls) new_app"

text \<open>
  A partition table with three filesystem rows among other rows, and what the parser
  returns on it; the lister's output without the line that gives the units, and the
  application after opening it.
\<close>

definition ntfs_row :: string where
  "ntfs_row = ''003:  000:001   0000096390   0000192779   0000096390   NTFS (0x07)''"

definition linux_row :: string where
  "linux_row = ''004:  000:002   0000192780   0000289169   0000096390   Linux (0x83)''"

definition several_rows :: "string list" where
  "several_rows =
     [header_row, meta_row, fat_row,
      ''002:  -------   0000096390   0000096390   0000000001   Unallocated'',
      ntfs_row, linux_row]"

definition several_info :: "partition list" where
  "several_info =
     [\<lparr>Slot = ''Meta'', CarvedFiles = ''No'', FSType = Some [], Path = Some [], Carved = ''No'',
       Start = ''0000000000'', End = ''0000000000'', Length = ''0000000001'',
       Description = ''Primary Table (#0)'', FileSystem = ''No'', Name = ''Primary_Table_(#0)''\<rparr>,
      \<lparr>Slot = ''000:000'', CarvedFiles = ''No'', FSType = Some [], Path = Some [], Carved = ''No'',
       Start = ''0000000063'', End = ''0000096389'', Length = ''0000096327'',
       Description = ''DOS FAT16 (0x04)_fs0'', FileSystem = ''Yes'',
       Name = ''DOS_FAT16_(0x04)_fs0''\<rparr>,
      \<lparr>Slot = ''-------'', CarvedFiles = ''No'', FSType = Some [], Path = Some [], Carved = ''No'',
       Start = ''0000096390'', End = ''0000096390'', Length = ''0000000001'',
       Description = ''Unallocated'', FileSystem = ''No'', Name = ''Unallocated''\<rparr>,
      \<lparr>Slot = ''000:001'', CarvedFiles = ''No'', FSType = Some [], Path = Some [], Carved = ''No'',
       Start = ''0000096390'', End = ''0000192779'', Length = ''0000096390'',
       Description = ''NTFS (0x07)_fs1'', FileSystem = ''Yes'', Name = ''NTFS_(0x07)_fs1''\<rparr>,
      \<lparr>Slot = ''000:002'', CarvedFiles = ''No'', FSType = Some [], Path = Some [], Carved = ''No'',
       Start = ''0000192780'', End = ''0000289169'', Length = ''0000096390'',
       Description = ''Linux (0x83)_fs2'', FileSystem = ''Yes'', Name = ''Linux_(0x83)_fs2''\<rparr>]"


text \<open>External programs that work, and external programs that print nothing.\<close>

definition tools_working :: tools where
  "tools_working cmd =
     (if hd cmd = ''/bin/dd'' then ([], ''96327+0 records in'')
      else if hd cmd = ''/usr/bin/fsstat'' then (''File System Type: FAT16'', [])
      else if hd cmd = ''/usr/bin/tsk_recover'' then (''Files Recovered: 3'', [])
      else if hd cmd = ''/usr/bin/md5sum'' then (''d41d8cd98f00b204e9800998ecf8427e  f'', [])
      else ([], []))"

definition tools_silent :: tools where
  "tools_silent cmd = ([], [])"


definition walk_one_file :: "string \<Rightarrow> walk" where
  "walk_one_file out = [(out, [], [''f.txt''])]"

text \<open>
  Walks of a folder \<open>/r\<close> with the two subfolders \<open>foo\<close> and \<open>foobar\<close>: without
  further subfolders, and with one subfolder each, visiting \<open>foo\<close> first or \<open>foobar\<close>
  first.
\<close>

definition walk_flat :: walk where
  "walk_flat =
     [(''/r'', [''foo'', ''foobar''], []), (''/r/foo'', [], [''a'']), (''/r/foobar'', [], [''b''])]"

definition walk_foo_first :: walk where
  "walk_foo_first =
     [(''/r'', [''foo'', ''foobar''], []), (''/r/foo'', [''x''], [''a'']), (''/r/foo/x'', [], []),
      (''/r/foobar'', [''y''], [''b'']), (''/r/foobar/y'', [], [])]"

definition walk_foobar_first :: walk where
  "walk_foobar_first =
     [(''/r'', [''foobar'', ''foo''], []), (''/r/foobar'', [''y''], [''b'']), (''/r/foobar/y'', [], []),
      (''/r/foo'', [''x''], [''a'']), (''/r/foo/x'', [], [])]"

definition same_entries :: "walk \<Rightarrow> walk \<Rightarrow> bool" where
  "same_entries w w' =
     (set (map (\<lambda>(d, ds, fs). (d, set ds, set fs)) w) =
      set (map (\<lambda>(d, ds, fs). (d, set ds, set fs)) w'))"

text \<open>
  A flag goes forward from \<open>p\<close> to \<open>q\<close> when \<open>"Yes"\<close> in \<open>p\<close> is still \<open>"Yes"\<close> in
  \<open>q\<close>; \<open>r\<close> says whether \<open>Recovered\<close> is looked at.  A recover operation prints always
  when its recovery tool writes something on \<open>stdout\<close> for every command.
\<close>

definition forward :: "bool \<Rightarrow> spartition \<Rightarrow> spartition \<Rightarrow> bool" where
  "forward r p q =
     ((Carved p = ''Yes'' \<longrightarrow> Carved q = ''Yes'') \<and>
      (CarvedFiles p = ''Yes'' \<longrightarrow> CarvedFiles q = ''Yes'') \<and>
      (r \<longrightarrow> Recovered p = ''Yes'' \<longrightarrow> Recovered q = ''Yes''))"

fun prints_always :: "operation \<Rightarrow> bool" where
  "prints_always (OpRecover tool walk_of out sel) = (\<forall>cmd. fst (tool cmd) \<noteq> [])"
| "prints_always (OpCarve tool out sel) = True"
| "prints_always (OpCarveFiles tool out chosen) = True"

text \<open>
  External programs that always print, and the sample application after partition 2
  was carved, recovered from and file-carved.
\<close>

definition tools_chatty :: tools where
  "tools_chatty cmd =
     (if hd cmd = ''/usr/bin/scalpel'' then (''x files carved = 2, y'', [])
      else (''Files Recovered: 3'', []))"

definition worked_app :: app where
  "worked_app =
     session [OpCarve tools_working ''/out'' [2],
              OpRecover tools_working walk_one_file ''/rec'' [2],
              OpCarveFiles tools_chatty ''/cf'' 2] sample_app"

section \<open>Properties of the partition table parser\<close>

text \<open>
  The partitions returned are the rows after the header, one for one and in order: row
  \<open>i\<close> is parsed with the counter at the number of filesystem rows before it.
\<close>

lemma parse_row_counter:
  "parse_row line c = Inr (temp, c') \<Longrightarrow> c' = c + (if is_fs_row line then 1 else 0)"
  by (auto simp: parse_row_def is_fs_row_def Let_def split: if_splits)

lemma fs_before_0 [simp]: "fs_before 0 rows = 0"
  by (simp add: fs_before_def)

lemma fs_before_Suc_Cons [simp]:
  "fs_before (Suc i) (l # ls) = (if is_fs_row (row_tokens l) then 1 else 0) + fs_before i ls"
  by (simp add: fs_before_def)

lemma mmls_loop_rows:
  "mmls_loop rows (info0, b0, True, c0) = Inr (info, b, sf, c) \<Longrightarrow>
   \<exists>new. info = info0 @ new \<and> length new = length rows \<and>
     (\<forall>i < length rows.
        parse_row (row_tokens (rows ! i)) (c0 + fs_before i rows) =
          Inr (new ! i, c0 + fs_before (Suc i) rows))"
proof (induction rows arbitrary: info0 b0 c0)
  case Nil
  then show ?case by simp
next
  case (Cons l ls)
  from Cons.prems obtain temp c' where
    row: "parse_row (row_tokens l) c0 = Inr (temp, c')" and
    rest: "mmls_loop ls (info0 @ [temp], units_step l b0, True, c') = Inr (info, b, sf, c)"
    by (auto simp: Let_def split: sum.splits)
  from parse_row_counter [OF row]
  have c': "c' = c0 + (if is_fs_row (row_tokens l) then 1 else 0)" .
  from Cons.IH [OF rest] obtain new where
    new: "info = (info0 @ [temp]) @ new" "length new = length ls" and
    each: "\<forall>i < length ls. parse_row (row_tokens (ls ! i)) (c' + fs_before i ls) =
             Inr (new ! i, c' + fs_before (Suc i) ls)"
    by blast
  have "\<forall>i < length (l # ls).
          parse_row (row_tokens ((l # ls) ! i)) (c0 + fs_before i (l # ls)) =
            Inr ((temp # new) ! i, c0 + fs_before (Suc i) (l # ls))"
  proof (intro allI impI)
    fix i assume i: "i < length (l # ls)"
    show "parse_row (row_tokens ((l # ls) ! i)) (c0 + fs_before i (l # ls)) =
            Inr ((temp # new) ! i, c0 + fs_before (Suc i) (l # ls))"
    proof (cases i)
      case 0
      with row c' show ?thesis by (simp add: fs_before_def)
    next
      case (Suc k)
      with i have "k < length ls" by simp
      with each have "parse_row (row_tokens (ls ! k)) (c' + fs_before k ls) =
                        Inr (new ! k, c' + fs_before (Suc k) ls)" by blast
      with Suc c' show ?thesis by (simp add: add.assoc)
    qed
  qed
  with new show ?case by (intro exI [of _ "temp # new"]) simp
qed

lemma mmls_loop_found:
  "mmls_loop rows (info0, b0, True, c0) = Inr (info, b, sf, c) \<Longrightarrow> sf"
  by (induction rows arbitrary: info0 b0 c0) (auto simp: Let_def split: sum.splits)

lemma mmls_loop_header:
  "mmls_loop f (info0, b0, False, c0) = Inr (info, b, sf, c) \<Longrightarrow>
   \<exists>b1. mmls_loop (rows_after_header f) (info0, b1, True, c0) = Inr (info, b, True, c)"
proof (induction f arbitrary: b0)
  case Nil
  then show ?case by simp
next
  case (Cons l f)
  show ?case
  proof (cases "''Slot'' \<in> set (row_tokens l)")
    case True
    with Cons.prems have
      eq: "mmls_loop f (info0, units_step l b0, True, c0) = Inr (info, b, sf, c)"
      by (simp add: Let_def)
    from mmls_loop_found [OF eq] eq True show ?thesis by auto
  next
    case False
    with Cons.prems have
      "mmls_loop f (info0, units_step l b0, False, c0) = Inr (info, b, sf, c)"
      by (simp add: Let_def)
    from Cons.IH [OF this] False show ?thesis by simp
  qed
qed

lemma mmlsParser_rows:
  assumes "mmlsParser f = Inr (info, b)"
  shows "length info = length (rows_after_header f) \<and>
         (\<forall>i < length (rows_after_header f).
            parse_row (row_tokens (rows_after_header f ! i)) (fs_before i (rows_after_header f)) =
              Inr (info ! i, fs_before (Suc i) (rows_after_header f)))"
proof -
  from assms obtain sf c where
    "mmls_loop f ([], BsInt (- 1), False, 0) = Inr (info, b, sf, c)"
    by (auto simp: mmlsParser_def split: sum.splits)
  from mmls_loop_header [OF this] obtain b1 where
    "mmls_loop (rows_after_header f) ([], b1, True, 0) = Inr (info, b, True, c)" by blast
  from mmls_loop_rows [OF this] show ?thesis by auto
qed

lemma parse_row_fs:
  "parse_row line k = Inr (p, k') \<Longrightarrow> is_fs_row line \<Longrightarrow>
   Description p = py_join '' '' (drop 14 line) @ ''_fs'' @ str_nat k \<and> FileSystem p = ''Yes''"
  by (auto simp: parse_row_def is_fs_row_def Let_def split: if_splits)

lemma parse_row_not_fs:
  "parse_row line k = Inr (p, k') \<Longrightarrow> \<not> is_fs_row line \<Longrightarrow>
   FileSystem p = ''No'' \<and>
   Description p = py_join '' '' (drop (if line ! 2 = ''Meta'' then 17 else 14) line)"
  by (auto simp: parse_row_def is_fs_row_def Let_def split: if_splits)

lemma parse_row_fields:
  "parse_row line k = Inr (p, k') \<Longrightarrow>
   2 < length line \<and> Slot p = line ! 2 \<and>
   (if line ! 2 = ''Meta''
    then 14 < length line \<and> Start p = line ! 8 \<and> End p = line ! 11 \<and> Length p = line ! 14 \<and>
         Description p = py_join '' '' (drop 17 line)
    else 11 < length line \<and> Start p = line ! 5 \<and> End p = line ! 8 \<and> Length p = line ! 11 \<and>
         Description p = py_join '' '' (drop 14 line) @
           (if py_in '':'' (line ! 2) then ''_fs'' @ str_nat k else []))"
  by (auto simp: parse_row_def Let_def split: if_splits)

text \<open>
  What \<open>split(" ")\<close> returns: never the empty list; joined with single spaces the
  tokens give the stripped row back, and no token contains a space.  So every space
  of the stripped row separates two tokens.
\<close>

lemma split_go_nonempty: "split_go d k acc s \<noteq> []"
  by (induction d k acc s rule: split_go.induct) auto

lemma py_split_nonempty: "py_split s d \<noteq> []"
  by (simp add: py_split_def split_go_nonempty)

lemma py_join_Cons: "ts \<noteq> [] \<Longrightarrow> py_join d (t # ts) = t @ d @ py_join d ts"
  by (cases ts) simp_all

lemma split_go_char:
  "split_go [c] 0 acc (x # xs) =
     (if x = c then rev acc # split_go [c] 0 [] xs else split_go [c] 0 (x # acc) xs)"
  by (simp add: py_startswith_def)

lemma split_go_char_join: "py_join [c] (split_go [c] 0 acc s) = rev acc @ s"
proof (induction s arbitrary: acc)
  case Nil
  then show ?case by simp
next
  case (Cons x xs)
  show ?case
  proof (cases "x = c")
    case True
    have "py_join [c] (rev acc # split_go [c] 0 [] xs) =
            rev acc @ [c] @ py_join [c] (split_go [c] 0 [] xs)"
      by (rule py_join_Cons) (rule split_go_nonempty)
    with True Cons.IH [of "[]"] show ?thesis
      by (simp only: split_go_char) simp
  next
    case False
    with Cons.IH [of "x # acc"] show ?thesis
      by (simp only: split_go_char) simp
  qed
qed

lemma split_go_char_free:
  "c \<notin> set acc \<Longrightarrow> t \<in> set (split_go [c] 0 acc s) \<Longrightarrow> c \<notin> set t"
proof (induction s arbitrary: acc)
  case Nil
  then show ?case by simp
next
  case (Cons x xs)
  show ?case
  proof (cases "x = c")
    case True
    with Cons.prems have "t = rev acc \<or> t \<in> set (split_go [c] 0 [] xs)"
      by (simp only: split_go_char) auto
    with Cons.prems(1) Cons.IH [of "[]"] show ?thesis by auto
  next
    case False
    with Cons.prems have "t \<in> set (split_go [c] 0 (x # acc) xs)"
      by (simp only: split_go_char) simp
    with Cons.prems(1) False Cons.IH [of "x # acc"] show ?thesis by auto
  qed
qed

lemma row_tokens_join: "py_join '' '' (row_tokens line) = py_strip line"
  by (simp add: row_tokens_def py_split_def split_go_char_join)

lemma row_tokens_no_space: "t \<in> set (row_tokens line) \<Longrightarrow> CHR '' '' \<notin> set t"
  unfolding row_tokens_def py_split_def
  by (rule split_go_char_free [of _ "[]"]) simp_all

text \<open>
  Every partition the parser returns has the empty string as \<open>Path\<close>, and after
  \<open>openDiskImage\<close> no partition has \<open>None\<close> there.
\<close>

lemma parse_row_Path: "parse_row line k = Inr (p, k') \<Longrightarrow> Path p = Some []"
  by (auto simp: parse_row_def Let_def split: if_splits)

lemma mmlsParser_Path:
  assumes "mmlsParser f = Inr (info, b)" and "p \<in> set info"
  shows "Path p = Some []"
proof -
  from assms(2) obtain i where i: "i < length info" "p = info ! i"
    by (auto simp: in_set_conv_nth)
  from mmlsParser_rows [OF assms(1)] i
  have "parse_row (row_tokens (rows_after_header f ! i)) (fs_before i (rows_after_header f)) =
          Inr (p, fs_before (Suc i) (rows_after_header f))" by simp
  then show ?thesis by (rule parse_row_Path)
qed

lemma openDiskImage_Path:
  assumes "\<forall>q \<in> set (listOfPartitions a). Path q \<noteq> None"
    and "p \<in> set (listOfPartitions (openDiskImage img stdout a))"
  shows "Path p \<noteq> None"
proof (cases "mmlsParser (py_splitlines stdout)")
  case (Inl e)
  with assms show ?thesis by (auto simp: openDiskImage_def split: if_splits)
next
  case (Inr r)
  obtain info b where r: "r = (info, b)" by (cases r)
  from Inr r have "\<forall>q \<in> set info. Path q = Some []"
    by (auto dest: mmlsParser_Path)
  with assms Inr r show ?thesis
    by (auto simp: openDiskImage_def open_entry_def split: if_splits)
qed

lemma sample_parse: "mmlsParser sample_mmls = Inr (sample_info, BsStr ''512'')"
  by code_simp

text \<open>
  C5.  For every input the parser accepts, a row after the header that bears a
  filesystem (not a \<open>Meta\<close> row, token 2 containing a colon) gets the description
  of tokens 14 onward followed by \<open>_fs\<close> and the number of filesystem rows before it, so
  the numbers are 0, 1, 2, \<dots> in the order of the rows, and \<open>FileSystem\<close> is \<open>"Yes"\<close>;
  every other row gets no suffix and \<open>FileSystem\<close> \<open>"No"\<close>.
\<close>

theorem fs_suffixes_in_encounter_order:
  assumes "mmlsParser f = Inr (info, b)" and "i < length (rows_after_header f)"
  shows "length info = length (rows_after_header f) \<and>
         (if is_fs_row (row_tokens (rows_after_header f ! i))
          then Description (info ! i) =
                 py_join '' '' (drop 14 (row_tokens (rows_after_header f ! i))) @ ''_fs'' @
                 str_nat (fs_before i (rows_after_header f)) \<and>
               FileSystem (info ! i) = ''Yes''
          else FileSystem (info ! i) = ''No'' \<and>
               Description (info ! i) =
                 py_join '' ''
                   (drop (if row_tokens (rows_after_header f ! i) ! 2 = ''Meta'' then 17 else 14)
                      (row_tokens (rows_after_header f ! i))))"
proof -
  from mmlsParser_rows [OF assms(1)] assms(2) have
    len: "length info = length (rows_after_header f)" and
    row: "parse_row (row_tokens (rows_after_header f ! i)) (fs_before i (rows_after_header f)) =
            Inr (info ! i, fs_before (Suc i) (rows_after_header f))"
    by blast+
  show ?thesis
  proof (cases "is_fs_row (row_tokens (rows_after_header f ! i))")
    case True
    with parse_row_fs [OF row] len show ?thesis by simp
  next
    case False
    with parse_row_not_fs [OF row] len show ?thesis by simp
  qed
qed

theorem fs_suffixes_in_encounter_order_witness:
  "mmlsParser several_rows = Inr (several_info, BsInt (- 1)) \<and>
   4 < length (rows_after_header several_rows) \<and>
   is_fs_row (row_tokens (rows_after_header several_rows ! 1)) \<and>
   \<not> is_fs_row (row_tokens (rows_after_header several_rows ! 2)) \<and>
   is_fs_row (row_tokens (rows_after_header several_rows ! 3)) \<and>
   is_fs_row (row_tokens (rows_after_header several_rows ! 4)) \<and>
   length several_info = 5 \<and>
   Description (several_info ! 1) = ''DOS FAT16 (0x04)_fs0'' \<and>
   FileSystem (several_info ! 1) = ''Yes'' \<and>
   Description (several_info ! 2) = ''Unallocated'' \<and>
   FileSystem (several_info ! 2) = ''No'' \<and>
   Description (several_info ! 3) = ''NTFS (0x07)_fs1'' \<and>
   FileSystem (several_info ! 3) = ''Yes'' \<and>
   Description (several_info ! 4) = ''Linux (0x83)_fs2'' \<and>
   FileSystem (several_info ! 4) = ''Yes''"
proof -
  have p: "mmlsParser several_rows = Inr (several_info, BsInt (- 1))" by code_simp
  have n: "length (rows_after_header several_rows) = 5" by code_simp
  have l1: "1 < length (rows_after_header several_rows)"
    and l2: "2 < length (rows_after_header several_rows)"
    and l3: "3 < length (rows_after_header several_rows)"
    and l4: "4 < length (rows_after_header several_rows)"
    by (simp_all add: n)
  have f1: "is_fs_row (row_tokens (rows_after_header several_rows ! 1))" by code_simp
  have f2: "\<not> is_fs_row (row_tokens (rows_after_header several_rows ! 2))" by code_simp
  have f3: "is_fs_row (row_tokens (rows_after_header several_rows ! 3))" by code_simp
  have f4: "is_fs_row (row_tokens (rows_after_header several_rows ! 4))" by code_simp
  have d1: "py_join '' '' (drop 14 (row_tokens (rows_after_header several_rows ! 1))) @ ''_fs'' @
              str_nat (fs_before 1 (rows_after_header several_rows)) = ''DOS FAT16 (0x04)_fs0''"
    by code_simp
  have d2: "py_join '' ''
              (drop (if row_tokens (rows_after_header several_rows ! 2) ! 2 = ''Meta'' then 17 else 14)
                 (row_tokens (rows_after_header several_rows ! 2))) = ''Unallocated''"
    by code_simp
  have d3: "py_join '' '' (drop 14 (row_tokens (rows_after_header several_rows ! 3))) @ ''_fs'' @
              str_nat (fs_before 3 (rows_after_header several_rows)) = ''NTFS (0x07)_fs1''"
    by code_simp
  have d4: "py_join '' '' (drop 14 (row_tokens (rows_after_header several_rows ! 4))) @ ''_fs'' @
              str_nat (fs_before 4 (rows_after_header several_rows)) = ''Linux (0x83)_fs2''"
    by code_simp
  from fs_suffixes_in_encounter_order [OF p l1] f1 d1 n
  have r1: "length several_info = 5 \<and> Description (several_info ! 1) = ''DOS FAT16 (0x04)_fs0'' \<and>
            FileSystem (several_info ! 1) = ''Yes''" by simp
  from fs_suffixes_in_encounter_order [OF p l2] f2 d2
  have r2: "Description (several_info ! 2) = ''Unallocated'' \<and>
            FileSystem (several_info ! 2) = ''No''" by simp
  from fs_suffixes_in_encounter_order [OF p l3] f3 d3
  have r3: "Description (several_info ! 3) = ''NTFS (0x07)_fs1'' \<and>
            FileSystem (several_info ! 3) = ''Yes''" by simp
  from fs_suffixes_in_encounter_order [OF p l4] f4 d4
  have r4: "Description (several_info ! 4) = ''Linux (0x83)_fs2'' \<and>
            FileSystem (several_info ! 4) = ''Yes''" by simp
  from p l4 f1 f2 f3 f4 r1 r2 r3 r4 show ?thesis by blast
qed

text \<open>
  \<open>str_nat\<close> writes the decimal numeral: reading its result back gives the number, so
  different counters give different suffixes.
\<close>

lemma parse_digits_all:
  "\<forall>c \<in> set ds. is_digit c \<Longrightarrow>
   parse_digits ds acc = Some (foldl (\<lambda>v c. 10 * v + digit_val c) acc ds)"
  by (induction ds acc rule: parse_digits.induct) simp_all

lemma digit_char_props: "d < 10 \<Longrightarrow> is_digit (digit_char d) \<and> digit_val (digit_char d) = d"
  by (simp add: is_digit_def digit_val_def digit_char_def)

lemma str_nat_digits: "str_nat n \<noteq> [] \<and> (\<forall>c \<in> set (str_nat n). is_digit c)"
proof (induction n rule: str_nat.induct)
  case (1 n)
  show ?case
  proof (cases "n < 10")
    case True
    then show ?thesis by (subst (1 2) str_nat.simps) (simp add: digit_char_props)
  next
    case False
    then have "n mod 10 < 10" by simp
    from digit_char_props [OF this] False 1 show ?thesis
      by (subst (1 2) str_nat.simps) auto
  qed
qed

lemma str_nat_value: "foldl (\<lambda>v c. 10 * v + digit_val c) 0 (str_nat n) = n"
proof (induction n rule: str_nat.induct)
  case (1 n)
  show ?case
  proof (cases "n < 10")
    case True
    then show ?thesis by (subst str_nat.simps) (simp add: digit_char_props)
  next
    case False
    then have "n mod 10 < 10" by simp
    from digit_char_props [OF this] False 1 show ?thesis
      by (subst str_nat.simps) simp
  qed
qed

lemma str_nat_read_back: "parse_nat (str_nat n) = Some n"
proof -
  from str_nat_digits [of n] obtain c cs where cs: "str_nat n = c # cs"
    and c: "is_digit c" and all: "\<forall>x \<in> set cs. is_digit x"
    by (cases "str_nat n") auto
  have "parse_nat (str_nat n) = parse_digits cs (digit_val c)"
    using cs c by (simp add: parse_nat_def)
  also have "\<dots> = Some (foldl (\<lambda>v c. 10 * v + digit_val c) (digit_val c) cs)"
    by (rule parse_digits_all [OF all])
  also have "foldl (\<lambda>v c. 10 * v + digit_val c) (digit_val c) cs =
             foldl (\<lambda>v c. 10 * v + digit_val c) 0 (str_nat n)"
    by (simp add: cs)
  also have "\<dots> = n" by (rule str_nat_value)
  finally show ?thesis .
qed

lemma str_nat_inj:
  assumes "str_nat m = str_nat n"
  shows "m = n"
proof -
  have "Some m = parse_nat (str_nat m)" by (simp only: str_nat_read_back)
  also have "\<dots> = parse_nat (str_nat n)" by (simp only: assms)
  also have "\<dots> = Some n" by (rule str_nat_read_back)
  finally show ?thesis by simp
qed

text \<open>The counter grows strictly from one filesystem row to the next.\<close>

lemma fs_before_strict:
  assumes "i < j" and "j \<le> length rows" and "is_fs_row (row_tokens (rows ! i))"
  shows "fs_before i rows < fs_before j rows"
proof -
  from assms(1,2) have i: "i < length rows" by simp
  from assms(1) obtain k where j: "j = i + Suc k" by (auto simp: less_iff_Suc_add)
  have "take j rows = take i rows @ take (Suc k) (drop i rows)"
    unfolding j by (rule take_add)
  also have "drop i rows = rows ! i # drop (Suc i) rows"
    using i by (simp add: Cons_nth_drop_Suc)
  finally have "take j rows = take i rows @ rows ! i # take k (drop (Suc i) rows)"
    by simp
  with assms(3) show ?thesis by (simp add: fs_before_def)
qed

text \<open>
  C2 (as the program has it).  The row is stripped and split at every single space:
  \<open>row_tokens\<close> is \<open>line.strip().split(" ")\<close>, so a run of spaces gives empty
  tokens, and other whitespace does not separate.  For every input the parser accepts
  and every row after the header, the fields are read by position in that list: a row
  whose token 2 is \<open>Meta\<close> takes start, end and length from tokens 8, 11 and 14 and the
  description from tokens 17 onward; any other row takes them from tokens 5, 8 and 11
  and the description from tokens 14 onward, followed by the \<open>_fs\<close> suffix on a
  filesystem row.
\<close>

theorem row_fields_by_position:
  assumes "mmlsParser f = Inr (info, b)" and "i < length (rows_after_header f)"
  shows "Slot (info ! i) = row_tokens (rows_after_header f ! i) ! 2 \<and>
     (if row_tokens (rows_after_header f ! i) ! 2 = ''Meta''
      then 14 < length (row_tokens (rows_after_header f ! i)) \<and>
           Start (info ! i) = row_tokens (rows_after_header f ! i) ! 8 \<and>
           End (info ! i) = row_tokens (rows_after_header f ! i) ! 11 \<and>
           Length (info ! i) = row_tokens (rows_after_header f ! i) ! 14 \<and>
           Description (info ! i) = py_join '' '' (drop 17 (row_tokens (rows_after_header f ! i)))
      else 11 < length (row_tokens (rows_after_header f ! i)) \<and>
           Start (info ! i) = row_tokens (rows_after_header f ! i) ! 5 \<and>
           End (info ! i) = row_tokens (rows_after_header f ! i) ! 8 \<and>
           Length (info ! i) = row_tokens (rows_after_header f ! i) ! 11 \<and>
           Description (info ! i) =
             py_join '' '' (drop 14 (row_tokens (rows_after_header f ! i))) @
             (if py_in '':'' (row_tokens (rows_after_header f ! i) ! 2)
              then ''_fs'' @ str_nat (fs_before i (rows_after_header f)) else []))"
proof -
  from mmlsParser_rows [OF assms(1)] assms(2) have
    row: "parse_row (row_tokens (rows_after_header f ! i)) (fs_before i (rows_after_header f)) =
            Inr (info ! i, fs_before (Suc i) (rows_after_header f))"
    by blast
  from parse_row_fields [OF row] show ?thesis by simp
qed

theorem row_fields_by_position_witness:
  "mmlsParser sample_mmls = Inr (sample_info, BsStr ''512'') \<and>
   0 < length (rows_after_header sample_mmls) \<and>
   row_tokens (rows_after_header sample_mmls ! 0) ! 2 = ''Meta'' \<and>
   Start (sample_info ! 0) = row_tokens (rows_after_header sample_mmls ! 0) ! 8 \<and>
   End (sample_info ! 0) = row_tokens (rows_after_header sample_mmls ! 0) ! 11 \<and>
   Length (sample_info ! 0) = row_tokens (rows_after_header sample_mmls ! 0) ! 14"
proof -
  have h2: "0 < length (rows_after_header sample_mmls)" by code_simp
  have h3: "row_tokens (rows_after_header sample_mmls ! 0) ! 2 = ''Meta''" by code_simp
  from row_fields_by_position [OF sample_parse h2] h3 sample_parse h2 show ?thesis by simp
qed

text \<open>
  C2 as stated reads the positions in the whitespace-split row.  On the \<open>Meta\<close> row of
  the sample, splitting on whitespace leaves eight tokens, of which token 2 is the
  start sector, and reading by the stated positions fails; the program's tokens give
  the start sector at position 8.
\<close>

theorem whitespace_tokens_differ:
  "parse_row (ws_tokens meta_row) 0 = Inl IndexError \<and>
   map_sum id (\<lambda>r. Start (fst r)) (parse_row (row_tokens meta_row) 0) = Inr ''0000000000''"
  by code_simp

lemma mmls_loop_bs:
  "mmls_loop f (info0, b0, sf0, c0) = Inr (info, b, sf, c) \<Longrightarrow> b = fold units_step f b0"
proof (induction f arbitrary: info0 b0 sf0 c0)
  case Nil
  then show ?case by simp
next
  case (Cons l f)
  then show ?case
    by (cases sf0) (auto simp: Let_def split: sum.splits)
qed

lemma last_units_line_snoc:
  "last_units_line (f @ [l]) =
     (if py_in ''Units are in '' l then Some l else last_units_line f)"
proof (cases "filter (py_in ''Units are in '') f")
  case Nil
  then show ?thesis by (simp add: last_units_line_def)
next
  case (Cons x xs)
  then show ?thesis by (simp add: last_units_line_def)
qed

lemma fold_units_step:
  "fold units_step f b0 =
     (case last_units_line f of None \<Rightarrow> b0 | Some l \<Rightarrow> BsStr (units_of l))"
proof (induction f rule: rev_induct)
  case Nil
  then show ?case by (simp add: last_units_line_def)
next
  case (snoc l f)
  then show ?case by (simp add: last_units_line_snoc units_step_def)
qed

lemma find_at_char:
  "c \<notin> set xs \<Longrightarrow> find_at [c] (xs @ c # ys) = Some (length xs)"
  by (induction xs) (auto simp: py_startswith_def)

lemma py_slice_middle:
  "py_slice (pre @ m @ mid @ rest) (int (length pre) + int (length m))
     (int (length (pre @ m @ mid))) = mid"
  by (simp add: py_slice_def Let_def nat_add_distrib)

lemma units_of_between:
  assumes first: "find_at ''Units are in '' (pre @ ''Units are in '' @ mid @ ''-'' @ rest) = Some (length pre)"
    and pre: "CHR ''-'' \<notin> set pre" and mid: "CHR ''-'' \<notin> set mid"
  shows "units_of (pre @ ''Units are in '' @ mid @ ''-'' @ rest) = mid"
proof -
  define m where "m = ''Units are in ''"
  have dashm: "CHR ''-'' \<notin> set m" by (simp add: m_def)
  have "CHR ''-'' \<notin> set (pre @ m @ mid)" using pre mid dashm by simp
  from find_at_char [OF this, of rest]
  have dash: "find_at ''-'' (pre @ m @ mid @ ''-'' @ rest) = Some (length (pre @ m @ mid))"
    by simp
  from first have first': "find_at m (pre @ m @ mid @ ''-'' @ rest) = Some (length pre)"
    by (simp only: m_def)
  have "units_of (pre @ m @ mid @ ''-'' @ rest) =
          py_slice (pre @ m @ mid @ ''-'' @ rest) (int (length pre) + int (length m))
            (int (length (pre @ m @ mid)))"
    unfolding units_of_def py_find_def m_def [symmetric] first' dash by simp
  also have "\<dots> = mid" by (rule py_slice_middle)
  finally show ?thesis by (simp only: m_def)
qed

text \<open>
  C8 (as the program has it).  The marker is tested on every line of the input, before
  and after the header.  For every input the parser accepts, the block size returned
  comes from the last line that contains the marker, or is \<open>-1\<close> when there is none;
  it is the slice of lines 95--96, and when the first \<open>-\<close> of the line comes after
  the first occurrence of the marker it is the text between the two.
\<close>

theorem blocksize_from_last_marker_line:
  assumes "mmlsParser f = Inr (info, b)"
  shows "b = (case last_units_line f of None \<Rightarrow> BsInt (- 1) | Some l \<Rightarrow> BsStr (units_of l)) \<and>
         (find_at ''Units are in '' (pre @ ''Units are in '' @ mid @ ''-'' @ rest) = Some (length pre) \<and>
          CHR ''-'' \<notin> set pre \<and> CHR ''-'' \<notin> set mid \<longrightarrow>
          units_of (pre @ ''Units are in '' @ mid @ ''-'' @ rest) = mid)"
proof -
  from assms obtain sf c where
    "mmls_loop f ([], BsInt (- 1), False, 0) = Inr (info, b, sf, c)"
    by (auto simp: mmlsParser_def split: sum.splits)
  from mmls_loop_bs [OF this] have "b = fold units_step f (BsInt (- 1))" .
  then have "b = (case last_units_line f of None \<Rightarrow> BsInt (- 1) | Some l \<Rightarrow> BsStr (units_of l))"
    by (simp only: fold_units_step)
  then show ?thesis using units_of_between by blast
qed

theorem blocksize_from_last_marker_line_witness:
  "mmlsParser sample_mmls = Inr (sample_info, BsStr ''512'') \<and>
   last_units_line sample_mmls = Some ''Units are in 512-byte sectors'' \<and>
   find_at ''Units are in '' ([] @ ''Units are in '' @ ''512'' @ ''-'' @ ''byte sectors'') =
     Some (length ([] :: string)) \<and>
   CHR ''-'' \<notin> set ([] :: string) \<and> CHR ''-'' \<notin> set ''512'' \<and>
   units_of ([] @ ''Units are in '' @ ''512'' @ ''-'' @ ''byte sectors'') = ''512''"
proof -
  have h2: "last_units_line sample_mmls = Some ''Units are in 512-byte sectors''" by code_simp
  have h3: "find_at ''Units are in '' ([] @ ''Units are in '' @ ''512'' @ ''-'' @ ''byte sectors'') =
              Some (length ([] :: string))"
    by code_simp
  have h4: "CHR ''-'' \<notin> set ([] :: string)" by simp
  have h5: "CHR ''-'' \<notin> set ''512''" by simp
  note t = blocksize_from_last_marker_line [OF sample_parse, of "[]" "''512''" "''byte sectors''"]
  from t have "units_of ([] @ ''Units are in '' @ ''512'' @ ''-'' @ ''byte sectors'') = ''512''"
    using h3 h4 h5 by blast
  with sample_parse h2 h3 h4 h5 show ?thesis by blast
qed

text \<open>
  C8 as stated lets no line after the header change the block size.  With a
  partition row whose description contains the marker, the block size returned is
  taken from that row.
\<close>

theorem row_after_header_changes_blocksize:
  "map_sum id snd (mmlsParser [''Units are in 512-byte sectors'', header_row]) = Inr (BsStr ''512'') \<and>
   map_sum id snd (mmlsParser [''Units are in 512-byte sectors'', header_row, odd_row]) = Inr (BsStr ''4096'')"
  by code_simp

section \<open>Properties of the carve job\<close>

lemma put_simps [simp]:
  "parts (put x d t) = parts t" "launched (put x d t) = launched t"
  "raised (put x d t) = raised t" "shown (put x d t) = shown t"
  by (simp_all add: put_def)

lemma put_success [simp]: "success (put x d j) = success j"
  by (simp add: put_def)

lemma insertCommand_simps [simp]:
  "parts (insertCommand x d t) = parts t" "launched (insertCommand x d t) = launched t"
  "raised (insertCommand x d t) = raised t" "queue (insertCommand x d t) = queue t"
  by (simp_all add: insertCommand_def)

lemma insertCommand_success [simp]: "success (insertCommand x d j) = success j"
  by (simp add: insertCommand_def)

lemma launch_simps [simp]:
  "parts (launch c t) = parts t" "launched (launch c t) = launched t @ [c]"
  "raised (launch c t) = raised t" "queue (launch c t) = queue t" "shown (launch c t) = shown t"
  by (simp_all add: launch_def)

lemma raise_simps [simp]:
  "parts (raise e t) = parts t" "launched (raise e t) = launched t"
  "raised (raise e t) = Some e"
  by (simp_all add: raise_def)

lemma raise_success [simp]: "success (raise e j) = success j"
  by (simp add: raise_def)

lemma mark_carved_simps [simp]:
  "launched (mark_carved pos out t) = launched t"
  "length (parts (mark_carved pos out t)) = length (parts t)"
  "pos < length (parts t) \<Longrightarrow> raised (mark_carved pos out t) = raised t"
  by (simp_all add: mark_carved_def)

lemma mark_carved_success [simp]: "success (mark_carved pos out j) = success j"
  by (simp add: mark_carved_def)

text \<open>
  What the classification computes: the token in \<open>stdout\<close>, or an empty \<open>stdout\<close> and
  the token in \<open>stderr\<close>.
\<close>

lemma classify_success:
  "success (classify name pos out so se j) =
     (success j \<or> py_in ''records'' so \<or> (so = [] \<and> py_in ''records'' se))"
  by (cases se) (auto simp: classify_def)

lemma classify_launched [simp]: "launched (classify name pos out so se j) = launched j"
  by (simp add: classify_def)

lemma classify_length [simp]: "length (parts (classify name pos out so se j)) = length (parts j)"
  by (simp add: classify_def)


text \<open>The three pairs of outputs the specification lists are classified as it says.\<close>

lemma classify_listed_cases:
  "success (classify name pos out ''1000 records in'' [] j) = True"
  "success (classify name pos out [] [] j) = success j"
  "success (classify name pos out [] ''0 records out'' j) = True"
  by (simp_all add: classify_success py_startswith_def)

text \<open>
  C1.  The job is meant to succeed exactly when the token \<open>records\<close> is in one of the
  two streams.  With \<open>stdout = "x"\<close> and \<open>stderr = "5 records out"\<close> the token is in
  \<open>stderr\<close>, yet the job is not a success and the classification leaves the job as it
  was: no partition changes and no message is put on the queue.
\<close>

theorem carve_success_misses_records_on_stderr:
  "py_in ''records'' ''5 records out'' \<and>
   \<not> success (classify ''n'' 2 ''/out/n'' ''x'' ''5 records out''
        \<lparr>parts = listOfPartitions sample_app, queue = [], shown = [], launched = [],
         raised = None, success = False\<rparr>) \<and>
   classify ''n'' 2 ''/out/n'' ''x'' ''5 records out''
        \<lparr>parts = listOfPartitions sample_app, queue = [], shown = [], launched = [],
         raised = None, success = False\<rparr> =
        \<lparr>parts = listOfPartitions sample_app, queue = [], shown = [], launched = [],
         raised = None, success = False\<rparr>"
  by (simp add: classify_def py_startswith_def)






section \<open>Properties of the tree builder\<close>

text \<open>
  C3.  A folder whose name only extends the name of a sibling must not be put under
  that sibling.  For \<open>/r\<close> with the subfolders \<open>foo\<close> and \<open>foobar\<close> the builder puts
  \<open>/r/foobar\<close> inside \<open>/r/foo\<close>: the test of line 203 is \<open>startswith\<close> on the whole
  path string.
\<close>

theorem prefix_sibling_folded_under_shorter:
  "getFilesTree walk_flat =
     Inr [(''/r'', Dict [(''Files'', Files []),
            (''/r/foo'', Dict [(''Files'', Files [''/r/foo/a'']),
               (''/r/foobar'', Dict [(''Files'', Files [''/r/foobar/b''])])])])]"
  by code_simp

text \<open>
  C4.  Two walks of the same folders and files, each visiting a folder before its
  subfolders and differing only in which sibling comes first, should give isomorphic
  trees.  The two walks of \<open>/r\<close> below list the same entries, and the trees built from
  them are not isomorphic: visiting \<open>foo\<close> first leaves \<open>/r/foobar/y\<close> inside
  \<open>/r/foobar\<close>, visiting \<open>foobar\<close> first puts it directly inside \<open>/r/foo\<close>.
\<close>

theorem tree_depends_on_sibling_order:
  "same_entries walk_foo_first walk_foobar_first \<and>
   (case (getFilesTree walk_foo_first, getFilesTree walk_foobar_first) of
      (Inr t, Inr t') \<Rightarrow> \<not> iso (Dict t) (Dict t')
    | _ \<Rightarrow> False)"
  by code_simp

section \<open>Properties of the recover operation\<close>

text \<open>
  C7.  Recovering from a partition that has not been carved should launch no recovery
  tool and show the message that the partition must be carved first.  The parser
  stores the empty string as \<open>Path\<close>, while the guard of line 756 compares with
  \<open>None\<close>: for partition 2 of the sample image, not carved, the recovery tool is
  launched with the empty path and the message is not shown.
\<close>

theorem recover_launches_tool_on_uncarved_partition:
  "Carved (listOfPartitions sample_app ! 2) = ''No'' \<and>
   Path (listOfPartitions sample_app ! 2) = Some [] \<and>
   launched (recoverFiles tools_silent walk_one_file ''/out'' [2] sample_app) =
     [[''/usr/bin/tsk_recover'', [], ''/out/out_DOSFAT16_2'']] \<and>
   (Str ''Partition not carved. Carve the partition first and try again.'', TAB)
     \<notin> set (shown (recoverFiles tools_silent walk_one_file ''/out'' [2] sample_app))"
  by code_simp

section \<open>Properties of the progress flags\<close>

lemma forward_refl [simp]: "forward r p p"
  by (simp add: forward_def)

lemma forward_trans: "forward r p q \<Longrightarrow> forward r q s \<Longrightarrow> forward r p s"
  by (simp add: forward_def)

lemma forward_all_refl [simp]: "list_all2 (forward r) ps ps"
  by (simp add: list_all2_refl)

lemma forward_all_trans:
  "list_all2 (forward r) ps qs \<Longrightarrow> list_all2 (forward r) qs rs \<Longrightarrow> list_all2 (forward r) ps rs"
proof (rule list_all2_all_nthI)
  assume pq: "list_all2 (forward r) ps qs" and qr: "list_all2 (forward r) qs rs"
  show "length ps = length rs"
    using pq qr by (simp add: list_all2_lengthD)
  fix n assume n: "n < length ps"
  with pq have 1: "forward r (ps ! n) (qs ! n)" by (rule list_all2_nthD)
  from n pq have "n < length qs" by (simp add: list_all2_lengthD)
  with qr have "forward r (qs ! n) (rs ! n)" by (rule list_all2_nthD)
  with 1 show "forward r (ps ! n) (rs ! n)" by (rule forward_trans)
qed

lemma forward_all_update:
  assumes "i < length ps \<Longrightarrow> forward r (ps ! i) q"
  shows "list_all2 (forward r) ps (ps[i := q])"
proof (cases "i < length ps")
  case True
  with assms show ?thesis
    by (auto simp: list_all2_conv_all_nth nth_list_update)
next
  case False
  then have "ps[i := q] = ps" by (simp add: list_update_beyond)
  then show ?thesis by simp
qed

lemma mark_carved_forward:
  "list_all2 (forward r) (parts t) (parts (mark_carved pos out t))"
  by (auto simp: mark_carved_def intro!: forward_all_update simp: forward_def)

lemma classify_forward:
  "list_all2 (forward r) (parts j) (parts (classify name pos out so se j))"
proof -
  have m: "\<And>t :: job. parts t = parts j \<Longrightarrow>
             list_all2 (forward r) (parts j) (parts (mark_carved pos out t))"
    using mark_carved_forward [of r _ pos out] by metis
  show ?thesis by (simp add: classify_def m)
qed

lemma probe_forward:
  "list_all2 (forward r) (parts j) (parts (probe tool a pos out j))"
  by (auto simp: probe_def Let_def forward_def intro!: forward_all_update split: option.splits)

lemma run_forward:
  "list_all2 (forward r) (listOfPartitions a) (parts (run tool a pd pos path))"
proof (cases "bs a")
  case (BsInt n)
  then show ?thesis by (simp add: run_def Let_def)
next
  case (BsStr b)
  let ?j0 = "put (Str (''Attempting to carve partition '' @ Name pd @ ''...'')) TAB
                 \<lparr>parts = listOfPartitions a, queue = [], shown = [], launched = [],
                  raised = None, success = False\<rparr>"
  let ?cmd = "[ddPath a, ''if='' @ imagePath a, ''of='' @ (path @ ''/'' @ Name pd), ''bs='' @ b,
               ''skip='' @ Start pd, ''count='' @ Length pd]"
  let ?j1 = "put (Args ?cmd) ''$'' (launch ?cmd ?j0)"
  let ?j2 = "classify (Name pd) pos (path @ ''/'' @ Name pd) (fst (tool ?cmd)) (snd (tool ?cmd)) ?j1"
  have a: "list_all2 (forward r) (listOfPartitions a) (parts ?j2)"
    using classify_forward [of r ?j1] by simp
  have b: "list_all2 (forward r) (listOfPartitions a) (parts (probe tool a pos (path @ ''/'' @ Name pd) ?j2))"
    by (rule forward_all_trans [OF a probe_forward])
  from BsStr a b show ?thesis by (simp add: run_def Let_def)
qed

lemma start_jobs_forward:
  "list_all2 (forward r) (listOfPartitions a) (listOfPartitions (fst (start_jobs tool out sel a)))"
proof (induction sel arbitrary: a)
  case Nil
  then show ?case by simp
next
  case (Cons i sel)
  show ?case
  proof (cases "i < length (listOfPartitions a)")
    case True
    let ?a' = "a\<lparr>listOfPartitions := parts (run tool a (listOfPartitions a ! i) i out)\<rparr>"
    have "list_all2 (forward r) (listOfPartitions a) (listOfPartitions ?a')"
      using run_forward by simp
    from forward_all_trans [OF this Cons.IH [of ?a']] True show ?thesis by simp
  next
    case False
    then show ?thesis by simp
  qed
qed

lemma hash_carved_forward:
  "list_all2 (forward r) (listOfPartitions a) (listOfPartitions (hash_carved tool sel a))"
proof (induction sel arbitrary: a)
  case Nil
  then show ?case by simp
next
  case (Cons i sel)
  show ?case
  proof (cases "i < length (listOfPartitions a) \<and> Carved (listOfPartitions a ! i) = ''Yes'' \<and>
                Path (listOfPartitions a ! i) \<noteq> None")
    case True
    then obtain pth where pth: "Path (listOfPartitions a ! i) = Some pth" by auto
    let ?a' = "a\<lparr>listOfPartitions := (listOfPartitions a)
                 [i := (listOfPartitions a ! i)\<lparr>MD5Sum := getMd5 tool pth (md5Path a)\<rparr>]\<rparr>"
    have "list_all2 (forward r) (listOfPartitions a) (listOfPartitions ?a')"
      by (auto intro!: forward_all_update simp: forward_def)
    from forward_all_trans [OF this Cons.IH [of ?a']] True pth show ?thesis
      by (simp add: Let_def)
  next
    case False
    with Cons.IH [of a] show ?thesis
      by (auto simp: Let_def split: option.splits)
  qed
qed

lemma carvePartitions_forward:
  "list_all2 (forward r) (listOfPartitions a) (listOfPartitions (carvePartitions tool out sel a))"
proof -
  obtain a' e where s: "start_jobs tool out sel a = (a', e)" by (cases "start_jobs tool out sel a")
  from start_jobs_forward [of r a tool out sel] s
  have 1: "list_all2 (forward r) (listOfPartitions a) (listOfPartitions a')" by simp
  have 2: "list_all2 (forward r) (listOfPartitions a) (listOfPartitions (hash_carved tool sel a'))"
    by (rule forward_all_trans [OF 1 hash_carved_forward])
  from s 1 2 show ?thesis
    by (cases e) (simp_all add: carvePartitions_def)
qed

lemma recover_one_forward:
  assumes "r \<longrightarrow> (\<forall>cmd. fst (tool cmd) \<noteq> [])"
  shows "list_all2 (forward r) (parts t) (parts (recover_one tool walk_of a out i t))"
  using assms
  by (auto simp: recover_one_def Let_def forward_def intro!: forward_all_update
           split: option.splits list.splits sum.splits)

lemma recover_loop_forward:
  assumes "r \<longrightarrow> (\<forall>cmd. fst (tool cmd) \<noteq> [])"
  shows "list_all2 (forward r) (parts t) (parts (recover_loop tool walk_of a out sel t))"
proof (induction sel arbitrary: t)
  case Nil
  then show ?case by simp
next
  case (Cons i sel)
  have 1: "list_all2 (forward r) (parts t) (parts (recover_one tool walk_of a out i t))"
    by (rule recover_one_forward [OF assms])
  from forward_all_trans [OF 1 Cons.IH] 1 show ?case by (simp add: Let_def)
qed

lemma recoverFiles_forward:
  assumes "r \<longrightarrow> (\<forall>cmd. fst (tool cmd) \<noteq> [])"
  shows "list_all2 (forward r) (listOfPartitions a) (parts (recoverFiles tool walk_of out sel a))"
  using recover_loop_forward [OF assms,
    of "\<lparr>parts = listOfPartitions a, queue = [], shown = [], launched = [], raised = None\<rparr>"]
  by (simp add: recoverFiles_def Let_def)

lemma carveFiles_forward:
  "list_all2 (forward r) (listOfPartitions a) (parts (carveFiles tool out chosen a))"
  by (auto simp: carveFiles_def Let_def forward_def intro!: forward_all_update
           split: option.splits list.splits sum.splits)

lemma apply_op_forward:
  "r \<longrightarrow> prints_always x \<Longrightarrow>
   list_all2 (forward r) (listOfPartitions a) (listOfPartitions (apply_op x a))"
  by (cases x) (simp_all add: carvePartitions_forward recoverFiles_forward carveFiles_forward)

lemma session_forward:
  "r \<longrightarrow> list_all prints_always ops \<Longrightarrow>
   list_all2 (forward r) (listOfPartitions a) (listOfPartitions (session ops a))"
proof (induction ops arbitrary: a)
  case Nil
  then show ?case by simp
next
  case (Cons x xs)
  then have 1: "list_all2 (forward r) (listOfPartitions a) (listOfPartitions (apply_op x a))"
    by (intro apply_op_forward) simp
  from Cons have "list_all2 (forward r) (listOfPartitions (apply_op x a))
                    (listOfPartitions (session xs (apply_op x a)))"
    by (intro Cons.IH) simp
  from forward_all_trans [OF 1 this] show ?case by simp
qed

text \<open>
  C6 (as the program has it).  For every partition and every sequence of carve,
  recover and file-carve operations, \<open>Carved\<close> and \<open>CarvedFiles\<close> once \<open>"Yes"\<close> stay
  \<open>"Yes"\<close>, and so does \<open>Recovered\<close> as long as every recover operation's tool prints
  something on \<open>stdout\<close>; the operations keep the number of partitions.
\<close>

theorem flags_forward_in_session:
  assumes "i < length (listOfPartitions a)"
  shows "length (listOfPartitions (session ops a)) = length (listOfPartitions a) \<and>
         (Carved (listOfPartitions a ! i) = ''Yes'' \<longrightarrow>
            Carved (listOfPartitions (session ops a) ! i) = ''Yes'') \<and>
         (CarvedFiles (listOfPartitions a ! i) = ''Yes'' \<longrightarrow>
            CarvedFiles (listOfPartitions (session ops a) ! i) = ''Yes'') \<and>
         (list_all prints_always ops \<longrightarrow> Recovered (listOfPartitions a ! i) = ''Yes'' \<longrightarrow>
            Recovered (listOfPartitions (session ops a) ! i) = ''Yes'')"
proof -
  have f: "list_all2 (forward False) (listOfPartitions a) (listOfPartitions (session ops a))"
    by (rule session_forward) simp
  then have len: "length (listOfPartitions (session ops a)) = length (listOfPartitions a)"
    by (simp add: list_all2_lengthD)
  from f assms have "forward False (listOfPartitions a ! i) (listOfPartitions (session ops a) ! i)"
    by (simp add: list_all2_nthD)
  then have cf: "(Carved (listOfPartitions a ! i) = ''Yes'' \<longrightarrow>
            Carved (listOfPartitions (session ops a) ! i) = ''Yes'') \<and>
         (CarvedFiles (listOfPartitions a ! i) = ''Yes'' \<longrightarrow>
            CarvedFiles (listOfPartitions (session ops a) ! i) = ''Yes'')"
    by (simp add: forward_def)
  have rec: "Recovered (listOfPartitions (session ops a) ! i) = ''Yes''"
    if p: "list_all prints_always ops" and y: "Recovered (listOfPartitions a ! i) = ''Yes''"
  proof -
    have "list_all2 (forward True) (listOfPartitions a) (listOfPartitions (session ops a))"
      by (rule session_forward) (simp add: p)
    with assms have "forward True (listOfPartitions a ! i) (listOfPartitions (session ops a) ! i)"
      by (simp add: list_all2_nthD)
    with y show ?thesis by (simp add: forward_def)
  qed
  from len cf rec show ?thesis by blast
qed

theorem flags_forward_in_session_witness:
  "2 < length (listOfPartitions worked_app) \<and>
   Carved (listOfPartitions worked_app ! 2) = ''Yes'' \<and>
   CarvedFiles (listOfPartitions worked_app ! 2) = ''Yes'' \<and>
   Recovered (listOfPartitions worked_app ! 2) = ''Yes'' \<and>
   list_all prints_always
     [OpRecover tools_chatty walk_one_file ''/rec'' [2], OpCarve tools_silent ''/out'' [2]] \<and>
   Carved (listOfPartitions (session
     [OpRecover tools_chatty walk_one_file ''/rec'' [2], OpCarve tools_silent ''/out'' [2]]
     worked_app) ! 2) = ''Yes'' \<and>
   CarvedFiles (listOfPartitions (session
     [OpRecover tools_chatty walk_one_file ''/rec'' [2], OpCarve tools_silent ''/out'' [2]]
     worked_app) ! 2) = ''Yes'' \<and>
   Recovered (listOfPartitions (session
     [OpRecover tools_chatty walk_one_file ''/rec'' [2], OpCarve tools_silent ''/out'' [2]]
     worked_app) ! 2) = ''Yes''"
proof -
  have h1: "2 < length (listOfPartitions worked_app)" by code_simp
  have h2: "Carved (listOfPartitions worked_app ! 2) = ''Yes''" by code_simp
  have h3: "CarvedFiles (listOfPartitions worked_app ! 2) = ''Yes''" by code_simp
  have h4: "Recovered (listOfPartitions worked_app ! 2) = ''Yes''" by code_simp
  have h5: "list_all prints_always
     [OpRecover tools_chatty walk_one_file ''/rec'' [2], OpCarve tools_silent ''/out'' [2]]"
    by (simp add: tools_chatty_def)
  from flags_forward_in_session [OF h1, of "[OpRecover tools_chatty walk_one_file ''/rec'' [2],
                        OpCarve tools_silent ''/out'' [2]]"] h1 h2 h3 h4 h5
  show ?thesis by blast
qed

text \<open>
  C6 as stated lets no flag go back.  Line 823 stores \<open>"No"\<close> in \<open>Recovered\<close> when the
  recovery tool prints nothing: after carving partition 2 of the sample and
  recovering files from it, a second recover operation whose tool is silent sets
  \<open>Recovered\<close> back from \<open>"Yes"\<close> to \<open>"No"\<close>.
\<close>

theorem recovered_set_back_to_No:
  "Recovered (listOfPartitions (session [OpCarve tools_working ''/out'' [2],
      OpRecover tools_working walk_one_file ''/rec'' [2]] sample_app) ! 2) = ''Yes'' \<and>
   Recovered (listOfPartitions (session [OpCarve tools_working ''/out'' [2],
      OpRecover tools_working walk_one_file ''/rec'' [2],
      OpRecover tools_silent walk_one_file ''/rec'' [2]] sample_app) ! 2) = ''No''"
  by code_simp

end
